theory Spec2Isabelle
  imports Complex_Main "HOL-Library.Sublist" "HOL-Library.List_Lexorder"
begin

section \<open>Text\<close>

text \<open>
  A Python \<open>str\<close> is a sequence of Unicode code points, and \<open>len\<close> counts code points.
  A string is therefore a list of code points (natural numbers); \<open>u\<close> turns an ASCII
  literal into such a list. The alias table of the program has keys outside ASCII
  (\<open>U+00F4\<close>, \<open>U+2019\<close>), which this representation writes down as they are.
\<close>

type_synonym ustr = "nat list"

definition u :: "string \<Rightarrow> ustr" where
  "u s = map of_char s"

datatype py_error = KeyError ustr | LookupError | ReError | TypeError

text \<open>
  The program calls three libraries: the Python string methods, \<open>pycountry\<close> and
  \<open>pandas\<close> (with \<open>re\<close> behind \<open>str.contains\<close>). None of them is code of this
  repository. What the string methods do on ASCII text is written out below; everything
  else they do is a field of the record \<open>library\<close>, and a theorem that needs a fact about
  a library states it as a hypothesis.

  \<^item> \<open>countries_get_alpha_2\<close>, \<open>countries_get_alpha_3\<close>: \<open>pycountry.countries.get\<close> with
    the keyword \<open>alpha_2\<close> or \<open>alpha_3\<close>; it answers with a record or with \<open>None\<close>
    (the program tests \<open>if c\<close>).
  \<^item> \<open>countries_lookup\<close>: \<open>pycountry.countries.lookup\<close>, which returns a record or raises.
  \<^item> \<open>re_error\<close>, \<open>re_search\<close>: compiling a pattern with \<open>re.IGNORECASE\<close> (an error or
    none) and searching a text with the compiled pattern.
  \<^item> \<open>to_numeric_str\<close>: the number \<open>pandas.to_numeric\<close> reads from a text, \<open>None\<close> where
    \<open>errors="coerce"\<close> gives NaN.
  \<^item> \<open>num_str\<close>: the text \<open>str\<close> gives for a number.
  \<^item> \<open>float_sum\<close>: the sum \<open>Series.sum\<close> computes in binary floating point, where
    such a sum has to round.
\<close>

record country =
  alpha_2 :: ustr
  alpha_3 :: ustr
  name :: ustr

record library =
  str_lower :: "ustr \<Rightarrow> ustr"
  str_upper :: "ustr \<Rightarrow> ustr"
  chr_isalpha :: "nat \<Rightarrow> bool"
  chr_isspace :: "nat \<Rightarrow> bool"
  num_str :: "rat \<Rightarrow> ustr"
  countries_get_alpha_2 :: "ustr \<Rightarrow> country option"
  countries_get_alpha_3 :: "ustr \<Rightarrow> country option"
  countries_lookup :: "ustr \<Rightarrow> py_error + country"
  re_error :: "ustr \<Rightarrow> py_error option"
  re_search :: "ustr \<Rightarrow> ustr \<Rightarrow> bool"
  to_numeric_str :: "ustr \<Rightarrow> rat option"
  float_sum :: "rat list \<Rightarrow> rat"

definition is_ascii :: "ustr \<Rightarrow> bool" where
  "is_ascii s = list_all (\<lambda>c. c < 128) s"

definition ascii_lower :: "nat \<Rightarrow> nat" where
  "ascii_lower c = (if 65 \<le> c \<and> c \<le> 90 then c + 32 else c)"

definition ascii_upper :: "nat \<Rightarrow> nat" where
  "ascii_upper c = (if 97 \<le> c \<and> c \<le> 122 then c - 32 else c)"

definition ascii_isalpha :: "nat \<Rightarrow> bool" where
  "ascii_isalpha c = ((65 \<le> c \<and> c \<le> 90) \<or> (97 \<le> c \<and> c \<le> 122))"

text \<open>The ASCII characters for which \<open>str.isspace\<close> holds: TAB to CR, FS to US, and space.\<close>

definition ascii_isspace :: "nat \<Rightarrow> bool" where
  "ascii_isspace c = ((9 \<le> c \<and> c \<le> 13) \<or> (28 \<le> c \<and> c \<le> 32))"

definition lower :: "library \<Rightarrow> ustr \<Rightarrow> ustr" where
  "lower L s = (if is_ascii s then map ascii_lower s else str_lower L s)"

definition upper :: "library \<Rightarrow> ustr \<Rightarrow> ustr" where
  "upper L s = (if is_ascii s then map ascii_upper s else str_upper L s)"

definition isalpha :: "library \<Rightarrow> ustr \<Rightarrow> bool" where
  "isalpha L s =
     (s \<noteq> [] \<and> list_all (\<lambda>c. if c < 128 then ascii_isalpha c else chr_isalpha L c) s)"

definition isspace :: "library \<Rightarrow> nat \<Rightarrow> bool" where
  "isspace L c = (if c < 128 then ascii_isspace c else chr_isspace L c)"

definition strip :: "library \<Rightarrow> ustr \<Rightarrow> ustr" where
  "strip L s = rev (dropWhile (isspace L) (rev (dropWhile (isspace L) s)))"

text \<open>\<open>s.split(sep)\<close> for a separator of one character: never empty, one piece more than
  there are separators.\<close>

fun split :: "nat \<Rightarrow> ustr \<Rightarrow> ustr list" where
  "split sep [] = [[]]"
| "split sep (c # s) =
     (if c = sep then [] # split sep s
      else (case split sep s of [] \<Rightarrow> [[c]] | p # ps \<Rightarrow> (c # p) # ps))"

section \<open>Resolving a country token\<close>

definition SPECIAL_ISO3 :: "(ustr \<times> ustr) list" where
  "SPECIAL_ISO3 =
    [(u ''Republic of Korea'', u ''KOR''),
     (u ''Korea, Republic of'', u ''KOR''),
     (u ''Viet Nam'', u ''VNM''),
     (u ''Iran'', u ''IRN''),
     (u ''Iran (Islamic Republic of)'', u ''IRN''),
     (u ''Lao PDR'', u ''LAO''),
     (u ''Democratic Republic of the Congo'', u ''COD''),
     (u ''Congo, The Democratic Republic of the'', u ''COD''),
     (u ''Cote d'' @ [39] @ u ''Ivoire'', u ''CIV''),
     (u ''C'' @ [244] @ u ''te d'' @ [8217] @ u ''Ivoire'', u ''CIV'')]"

text \<open>
  \<open>token_to_iso3\<close> returns a code or \<open>None\<close>. The only call that can raise,
  \<open>countries.lookup\<close>, stands inside \<open>try ... except Exception\<close>: its error branch is the
  last line.
\<close>

definition token_to_iso3 :: "library \<Rightarrow> ustr \<Rightarrow> ustr option" where
  "token_to_iso3 L tok0 =
    (let tok = strip L tok0 in
     if lower L tok \<in> set [u ''multiple'', [], u ''nan''] then None
     else case map_of SPECIAL_ISO3 tok of
       Some code \<Rightarrow> Some code
     | None \<Rightarrow>
       if length tok = 2 \<and> isalpha L tok then
         (case countries_get_alpha_2 L (upper L tok) of
            Some c \<Rightarrow> Some (alpha_3 c) | None \<Rightarrow> None)
       else if length tok = 3 \<and> isalpha L tok then
         (case countries_get_alpha_3 L (upper L tok) of
            Some c \<Rightarrow> Some (alpha_3 c) | None \<Rightarrow> None)
       else
         (case countries_lookup L tok of
            Inr c \<Rightarrow> Some (alpha_3 c) | Inl e \<Rightarrow> None))"

section \<open>Tables\<close>

text \<open>
  A cell of the table is a text, a number or missing (NaN, \<open>None\<close>); other kinds of
  cell (dates, truth values) are left out. A number cell holds a finite number, integer or
  floating point, as the rational it is. A table has its column names and its rows; a row
  gives the cell in each column, and reading a column that the table does not have raises
  \<open>KeyError\<close>.
\<close>

datatype cell = Str ustr | Num rat | NaN

type_synonym row = "ustr \<Rightarrow> cell"

record dataframe =
  columns :: "ustr list"
  rows :: "row list"

definition isna :: "cell \<Rightarrow> bool" where
  "isna c = (c = NaN)"

text \<open>\<open>str(val)\<close> and \<open>.astype(str)\<close>: a text stays, a number is printed, and a missing
  value becomes the text \<open>nan\<close> (as pandas does on a column of Python objects), which is
  why \<open>token_to_iso3\<close> rejects that text.\<close>

definition py_str :: "library \<Rightarrow> cell \<Rightarrow> ustr" where
  "py_str L c = (case c of Str s \<Rightarrow> s | Num x \<Rightarrow> num_str L x | NaN \<Rightarrow> u ''nan'')"

definition split_countries :: "library \<Rightarrow> cell \<Rightarrow> ustr list" where
  "split_countries L val =
    (if isna val then []
     else let s = py_str L val in
       if 59 \<in> set s then
         (let toks = map (strip L) (split 59 s)
          in filter (\<lambda>t. t \<noteq> [] \<and> lower L t \<noteq> u ''multiple'') toks)
       else [strip L s])"

section \<open>Filtering\<close>

text \<open>
  \<open>apply_filters\<close> reads the table and the sidebar. What the user does in the sidebar is
  an input of the function: \<open>picked ui label\<close> is the list of values the user picks in
  the multiselect widget with that label, \<open>typed ui\<close> is the content of the search box.
\<close>

record sidebar =
  picked :: "ustr \<Rightarrow> cell list"
  typed :: ustr

text \<open>
  The helper \<open>multiselect\<close> returns \<open>None\<close> where the table has no such column.
  Otherwise it offers the distinct values of the column that are not missing, in
  increasing order, and returns the user's picks among them. \<open>sorted\<close> compares texts
  with texts and numbers with numbers, and raises \<open>TypeError\<close> on a list that mixes
  them.
\<close>

definition strs :: "cell list \<Rightarrow> ustr list" where
  "strs cs = concat (map (\<lambda>c. case c of Str s \<Rightarrow> [s] | Num x \<Rightarrow> [] | NaN \<Rightarrow> []) cs)"

definition nums :: "cell list \<Rightarrow> rat list" where
  "nums cs = concat (map (\<lambda>c. case c of Str s \<Rightarrow> [] | Num x \<Rightarrow> [x] | NaN \<Rightarrow> []) cs)"

definition sorted_cells :: "cell list \<Rightarrow> py_error + cell list" where
  "sorted_cells cs =
    (if length (strs cs) = length cs then Inr (map Str (sort (strs cs)))
     else if length (nums cs) = length cs then Inr (map Num (sort (nums cs)))
     else Inl TypeError)"

definition multiselect ::
  "sidebar \<Rightarrow> dataframe \<Rightarrow> ustr \<Rightarrow> ustr \<Rightarrow> py_error + cell list option" where
  "multiselect ui df col label =
    (if col \<notin> set (columns df) then Inr None
     else case sorted_cells (remdups (filter (\<lambda>c. \<not> isna c) (map (\<lambda>r. r col) (rows df)))) of
       Inl e \<Rightarrow> Inl e
     | Inr opts \<Rightarrow> Inr (Some (filter (\<lambda>x. x \<in> set opts) (picked ui label))))"

text \<open>\<open>if selected and col in out.columns\<close>: neither \<open>None\<close> nor the empty list is a
  selection.\<close>

definition filt :: "ustr \<Rightarrow> cell list option \<Rightarrow> dataframe \<Rightarrow> dataframe" where
  "filt col selected out =
    (case selected of
       None \<Rightarrow> out
     | Some sel \<Rightarrow>
         if sel \<noteq> [] \<and> col \<in> set (columns out)
         then out\<lparr>rows := filter (\<lambda>r. r col \<in> set sel) (rows out)\<rparr>
         else out)"

text \<open>
  \<open>Series.str.contains(q, case=False, na=False)\<close> leaves \<open>regex\<close> at its default
  \<open>True\<close>: it compiles \<open>q\<close> as a regular expression with \<open>re.IGNORECASE\<close>, which may
  raise, and searches each text. A pattern of ASCII letters, digits and spaces has no
  metacharacter, so on ASCII text the search is containment up to case; every other
  search is the library's.
\<close>

definition plain :: "ustr \<Rightarrow> bool" where
  "plain pat = list_all (\<lambda>c. ascii_isalpha c \<or> (48 \<le> c \<and> c \<le> 57) \<or> c = 32) pat"

definition str_contains :: "library \<Rightarrow> ustr \<Rightarrow> py_error + (ustr \<Rightarrow> bool)" where
  "str_contains L pat =
    (if plain pat then
       Inr (\<lambda>s. if is_ascii s then sublist (lower L pat) (lower L s) else re_search L pat s)
     else case re_error L pat of
       Some e \<Rightarrow> Inl e
     | None \<Rightarrow> Inr (re_search L pat))"

text \<open>
  A statement that raises ends the function with its error: \<open>then_do\<close> runs the rest
  only on a value. \<open>apply_filters\<close> is the whole function: the eight widgets in the
  order of the source, the eight calls of \<open>filt\<close> on a copy of the table, and the search
  in the titles, whose box is read only where the table has the column \<open>Title\<close>.
\<close>

definition then_do :: "py_error + 'a \<Rightarrow> ('a \<Rightarrow> py_error + 'b) \<Rightarrow> py_error + 'b" where
  "then_do m f = (case m of Inl e \<Rightarrow> Inl e | Inr x \<Rightarrow> f x)"

definition apply_filters :: "library \<Rightarrow> sidebar \<Rightarrow> dataframe \<Rightarrow> py_error + dataframe" where
  "apply_filters L ui df =
    then_do (multiselect ui df (u ''Region'') (u ''Region'')) (\<lambda>f_region.
    then_do (multiselect ui df (u ''Sub-region'') (u ''Sub-region'')) (\<lambda>f_subregion.
    then_do (multiselect ui df (u ''Host country'') (u ''Host Party'')) (\<lambda>f_host.
    then_do (multiselect ui df (u ''Type'') (u ''Activity Type (Type)'')) (\<lambda>f_type.
    then_do (multiselect ui df (u ''Type.1'') (u ''Tech Type (Type.1)'')) (\<lambda>f_type1.
    then_do (multiselect ui df (u ''Transition Request'') (u ''Transition Request''))
      (\<lambda>f_transition.
    then_do (multiselect ui df (u ''Methodology after transition'')
               (u ''Methodology after transition'')) (\<lambda>f_method.
    then_do (multiselect ui df (u ''Approved by Host Party'') (u ''Approved by Host Party''))
      (\<lambda>f_approved.
      let out = df;
          out = filt (u ''Region'') f_region out;
          out = filt (u ''Sub-region'') f_subregion out;
          out = filt (u ''Host country'') f_host out;
          out = filt (u ''Type'') f_type out;
          out = filt (u ''Type.1'') f_type1 out;
          out = filt (u ''Transition Request'') f_transition out;
          out = filt (u ''Methodology after transition'') f_method out;
          out = filt (u ''Approved by Host Party'') f_approved out
      in if u ''Title'' \<in> set (columns out) then
           (let q = typed ui in
            if q \<noteq> [] then
              (case str_contains L q of
                 Inl e \<Rightarrow> Inl e
               | Inr m \<Rightarrow>
                   Inr (out\<lparr>rows := filter (\<lambda>r. m (py_str L (r (u ''Title'')))) (rows out)\<rparr>))
            else Inr out)
         else Inr out))))))))"

section \<open>Geographic expansion\<close>

text \<open>
  \<open>make_exploded_for_geo\<close> works on a copy of the table it is given
  (\<open>df_filtered.copy()\<close>), so its caller's table stays as it was: tables are values here.
  \<open>ex[c] = ...\<close> writes a column: its name is added if new, and every row gets its cell.
  The column of token lists and its \<open>explode\<close> are one step, which gives a row per token;
  a row with no token stays, with a missing token. The column \<open>Host country\<close> is read
  without a test for its presence.
\<close>

definition assign :: "ustr \<Rightarrow> (row \<Rightarrow> cell) \<Rightarrow> dataframe \<Rightarrow> dataframe" where
  "assign c f ex =
    \<lparr>columns = (if c \<in> set (columns ex) then columns ex else columns ex @ [c]),
     rows = map (\<lambda>r. r(c := f r)) (rows ex)\<rparr>"

definition explode :: "ustr \<Rightarrow> (row \<Rightarrow> ustr list) \<Rightarrow> dataframe \<Rightarrow> dataframe" where
  "explode c f ex =
    \<lparr>columns = (if c \<in> set (columns ex) then columns ex else columns ex @ [c]),
     rows = concat (map (\<lambda>r. if f r = [] then [r(c := NaN)]
                              else map (\<lambda>t. r(c := Str t)) (f r)) (rows ex))\<rparr>"

definition make_exploded_for_geo :: "library \<Rightarrow> dataframe \<Rightarrow> py_error + dataframe" where
  "make_exploded_for_geo L df_filtered =
    (let ex = df_filtered in
     if u ''Host country'' \<notin> set (columns ex) then Inl (KeyError (u ''Host country''))
     else
       let ex = explode (u ''host_token'') (\<lambda>r. split_countries L (r (u ''Host country''))) ex;
           ex = assign (u ''country_clean'')
                  (\<lambda>r. Str (strip L (py_str L (r (u ''host_token''))))) ex;
           ex = assign (u ''iso3'')
                  (\<lambda>r. case token_to_iso3 L (py_str L (r (u ''country_clean''))) of
                         None \<Rightarrow> NaN | Some code \<Rightarrow> Str code) ex
       in Inr (ex\<lparr>rows := filter (\<lambda>r. \<not> isna (r (u ''iso3''))) (rows ex)\<rparr>))"

section \<open>Key figures and the page\<close>

definition total_selected :: "dataframe \<Rightarrow> nat" where
  "total_selected df_f = length (rows df_f)"

definition count_yes :: "library \<Rightarrow> ustr \<Rightarrow> dataframe \<Rightarrow> nat" where
  "count_yes L col df_f =
    (if col \<in> set (columns df_f)
     then length (filter (\<lambda>r. lower L (py_str L (r col)) = u ''yes'') (rows df_f))
     else 0)"

definition requested_transition :: "library \<Rightarrow> dataframe \<Rightarrow> nat" where
  "requested_transition L df_f = count_yes L (u ''Transition Request'') df_f"

definition approved_yes :: "library \<Rightarrow> dataframe \<Rightarrow> nat" where
  "approved_yes L df_f = count_yes L (u ''Approved by Host Party'') df_f"

text \<open>\<open>pd.to_numeric(..., errors="coerce").fillna(0)\<close>, cell by cell.\<close>

definition to_numeric :: "library \<Rightarrow> cell \<Rightarrow> rat option" where
  "to_numeric L c = (case c of Num x \<Rightarrow> Some x | Str s \<Rightarrow> to_numeric_str L s | NaN \<Rightarrow> None)"

definition fillna0 :: "rat option \<Rightarrow> rat" where
  "fillna0 x = (case x of None \<Rightarrow> 0 | Some v \<Rightarrow> v)"

text \<open>
  \<open>.sum()\<close> adds the numbers of the column in binary floating point. Adding zero to a
  number gives that number, so a column with at most one number other than zero sums to
  that number, or to zero; every other sum is the library's, which may round. Only
  finite sums have a value here: a sum that overflows is outside the model.
\<close>

definition reductions_sum :: "library \<Rightarrow> dataframe \<Rightarrow> rat" where
  "reductions_sum L df_f =
    (if u ''Reductions (ktCO2e/yr)'' \<in> set (columns df_f)
     then let xs = map (\<lambda>r. fillna0 (to_numeric L (r (u ''Reductions (ktCO2e/yr)''))))
                     (rows df_f)
          in if length (filter (\<lambda>x. x \<noteq> 0) xs) \<le> 1 then sum_list xs else float_sum L xs
     else 0)"

text \<open>\<open>ex.groupby("iso3").size()\<close>: the codes in increasing order, each with the number of
  rows that carry it; rows with a missing code are left out.\<close>

definition geo_counts :: "dataframe \<Rightarrow> (ustr \<times> nat) list" where
  "geo_counts ex =
    (let keys = concat (map (\<lambda>r. case r (u ''iso3'') of Str s \<Rightarrow> [s] | Num x \<Rightarrow> [] | NaN \<Rightarrow> [])
                          (rows ex))
     in map (\<lambda>k. (k, count_list keys k)) (sort (remdups keys)))"

definition cols_prefer :: "ustr list" where
  "cols_prefer =
    [u ''Region'', u ''Sub-region'', u ''Host country'', u ''Title'', u ''Type'', u ''Type.1'',
     u ''Reductions (ktCO2e/yr)'',
     u ''A6 relevant period from'', u ''A6 relevant period to'',
     u ''A6 relevant period '' @ [10] @ u ''(in years)'',
     u ''Transition Request'', u ''Methodology after transition'',
     u ''Sectoral Sope'', u ''Approved by Host Party'', u ''Approval Date'']"

definition cols_show :: "dataframe \<Rightarrow> ustr list" where
  "cols_show df_f =
    (let cs = filter (\<lambda>c. c \<in> set (columns df_f)) cols_prefer
     in if cs = [] then columns df_f else cs)"

text \<open>
  The page, in the order of the script, for a table that \<open>load_data\<close> has read and a
  user at the sidebar: the filtered table, the four figures, the expanded
  table and its counts for the map, and the detail table. The ranking of the bar chart
  is left out.
\<close>

record page =
  k1 :: nat
  k2 :: nat
  k3 :: nat
  k4 :: rat
  fig_map :: "(ustr \<times> nat) list"
  details :: dataframe

definition app :: "library \<Rightarrow> sidebar \<Rightarrow> dataframe \<Rightarrow> py_error + page" where
  "app L ui df =
    (case apply_filters L ui df of
       Inl e \<Rightarrow> Inl e
     | Inr df_f \<Rightarrow>
         (case make_exploded_for_geo L df_f of
            Inl e \<Rightarrow> Inl e
          | Inr ex \<Rightarrow>
              Inr \<lparr>k1 = total_selected df_f,
                   k2 = requested_transition L df_f,
                   k3 = approved_yes L df_f,
                   k4 = reductions_sum L df_f,
                   fig_map = geo_counts ex,
                   details = df_f\<lparr>columns := cols_show df_f\<rparr>\<rparr>))"

section \<open>A small library\<close>

text \<open>
  One library to evaluate the program with: its country database holds four entries of
  ISO 3166-1 and is searched without regard to ASCII case, it reads unsigned decimal
  numbers and adds them exactly, and its regular-expression engine rejects every
  pattern. It shows that the hypotheses the theorems make about a library can be met.
\<close>

definition iso_countries :: "country list" where
  "iso_countries =
    [\<lparr>alpha_2 = u ''ID'', alpha_3 = u ''IDN'', name = u ''Indonesia''\<rparr>,
     \<lparr>alpha_2 = u ''CL'', alpha_3 = u ''CHL'', name = u ''Chile''\<rparr>,
     \<lparr>alpha_2 = u ''EG'', alpha_3 = u ''EGY'', name = u ''Egypt''\<rparr>,
     \<lparr>alpha_2 = u ''VN'', alpha_3 = u ''VNM'', name = u ''Viet Nam''\<rparr>]"

definition digits :: "ustr \<Rightarrow> bool" where
  "digits s = (s \<noteq> [] \<and> list_all (\<lambda>c. 48 \<le> c \<and> c \<le> 57) s)"

definition digits_val :: "ustr \<Rightarrow> nat" where
  "digits_val s = foldl (\<lambda>a c. 10 * a + (c - 48)) 0 s"

definition read_decimal :: "ustr \<Rightarrow> rat option" where
  "read_decimal s =
    (case split 46 s of
       [a] \<Rightarrow> if digits a then Some (of_nat (digits_val a)) else None
     | [a, b] \<Rightarrow>
         if digits a \<and> digits b
         then Some (of_nat (digits_val a) + of_nat (digits_val b) / 10 ^ length b)
         else None
     | _ \<Rightarrow> None)"

definition small_lib :: library where
  "small_lib =
    \<lparr>str_lower = (\<lambda>s. s), str_upper = (\<lambda>s. s),
     chr_isalpha = (\<lambda>c. False), chr_isspace = (\<lambda>c. False),
     num_str = (\<lambda>x. u ''0''),
     countries_get_alpha_2 =
       (\<lambda>s. find (\<lambda>c. map ascii_lower (alpha_2 c) = map ascii_lower s) iso_countries),
     countries_get_alpha_3 =
       (\<lambda>s. find (\<lambda>c. map ascii_lower (alpha_3 c) = map ascii_lower s) iso_countries),
     countries_lookup =
       (\<lambda>s. case find (\<lambda>c. map ascii_lower s \<in>
                          set [map ascii_lower (alpha_2 c), map ascii_lower (alpha_3 c),
                               map ascii_lower (name c)]) iso_countries of
               None \<Rightarrow> Inl LookupError
             | Some c \<Rightarrow> Inr c),
     re_error = (\<lambda>p. Some ReError),
     re_search = (\<lambda>p s. False),
     to_numeric_str = read_decimal,
     float_sum = sum_list\<rparr>"





section \<open>Vocabulary of the properties\<close>


text \<open>
  The values the widgets return are the filter input proper: for each of the eight columns
  the list \<open>multiselect\<close> returned (\<open>None\<close> where the column is absent), and the text of
  the search box. \<open>draw_filters\<close> is the first half of \<open>apply_filters\<close>, which draws the
  sidebar and collects these values; \<open>apply_spec\<close> is the second half, from
  \<open>out = df.copy()\<close> on. \<open>apply_filters\<close> is the one after the other
  (\<open>apply_filters_draw\<close> below).
\<close>

record filter_spec =
  w_region :: "cell list option"
  w_subregion :: "cell list option"
  w_host :: "cell list option"
  w_type :: "cell list option"
  w_type1 :: "cell list option"
  w_transition :: "cell list option"
  w_method :: "cell list option"
  w_approved :: "cell list option"
  w_text :: ustr

definition draw_filters :: "sidebar \<Rightarrow> dataframe \<Rightarrow> py_error + filter_spec" where
  "draw_filters ui df =
    then_do (multiselect ui df (u ''Region'') (u ''Region'')) (\<lambda>f_region.
    then_do (multiselect ui df (u ''Sub-region'') (u ''Sub-region'')) (\<lambda>f_subregion.
    then_do (multiselect ui df (u ''Host country'') (u ''Host Party'')) (\<lambda>f_host.
    then_do (multiselect ui df (u ''Type'') (u ''Activity Type (Type)'')) (\<lambda>f_type.
    then_do (multiselect ui df (u ''Type.1'') (u ''Tech Type (Type.1)'')) (\<lambda>f_type1.
    then_do (multiselect ui df (u ''Transition Request'') (u ''Transition Request''))
      (\<lambda>f_transition.
    then_do (multiselect ui df (u ''Methodology after transition'')
               (u ''Methodology after transition'')) (\<lambda>f_method.
    then_do (multiselect ui df (u ''Approved by Host Party'') (u ''Approved by Host Party''))
      (\<lambda>f_approved.
      Inr \<lparr>w_region = f_region, w_subregion = f_subregion, w_host = f_host,
           w_type = f_type, w_type1 = f_type1, w_transition = f_transition,
           w_method = f_method, w_approved = f_approved, w_text = typed ui\<rparr>))))))))"

definition apply_spec :: "library \<Rightarrow> dataframe \<Rightarrow> filter_spec \<Rightarrow> py_error + dataframe" where
  "apply_spec L df fs =
    (let out = df;
         out = filt (u ''Region'') (w_region fs) out;
         out = filt (u ''Sub-region'') (w_subregion fs) out;
         out = filt (u ''Host country'') (w_host fs) out;
         out = filt (u ''Type'') (w_type fs) out;
         out = filt (u ''Type.1'') (w_type1 fs) out;
         out = filt (u ''Transition Request'') (w_transition fs) out;
         out = filt (u ''Methodology after transition'') (w_method fs) out;
         out = filt (u ''Approved by Host Party'') (w_approved fs) out
     in if u ''Title'' \<in> set (columns out) then
          (if w_text fs \<noteq> [] then
             (case str_contains L (w_text fs) of
                Inl e \<Rightarrow> Inl e
              | Inr m \<Rightarrow>
                  Inr (out\<lparr>rows := filter (\<lambda>r. m (py_str L (r (u ''Title'')))) (rows out)\<rparr>))
           else Inr out)
        else Inr out)"

text \<open>
  A selection is inactive when the widget returned nothing: \<open>None\<close> or the empty list.
  A filter input without constraint has every selection inactive and an empty search box.
\<close>

definition inactive :: "cell list option \<Rightarrow> bool" where
  "inactive sel = (sel = None \<or> sel = Some [])"

definition selections :: "filter_spec \<Rightarrow> (ustr \<times> cell list option) list" where
  "selections fs =
    [(u ''Region'', w_region fs),
     (u ''Sub-region'', w_subregion fs),
     (u ''Host country'', w_host fs),
     (u ''Type'', w_type fs),
     (u ''Type.1'', w_type1 fs),
     (u ''Transition Request'', w_transition fs),
     (u ''Methodology after transition'', w_method fs),
     (u ''Approved by Host Party'', w_approved fs)]"

definition no_constraint :: "filter_spec \<Rightarrow> bool" where
  "no_constraint fs = (list_all (\<lambda>p. inactive (snd p)) (selections fs) \<and> w_text fs = [])"

text \<open>Host countries are selected and nothing else is asked.\<close>

definition host_only :: "filter_spec \<Rightarrow> bool" where
  "host_only fs =
    (list_all inactive
       [w_region fs, w_subregion fs, w_type fs, w_type1 fs, w_transition fs, w_method fs,
        w_approved fs]
     \<and> w_text fs = [])"

text \<open>What one selection asks of a row of a table with the columns \<open>cols\<close>.\<close>

definition passes :: "ustr list \<Rightarrow> ustr \<times> cell list option \<Rightarrow> row \<Rightarrow> bool" where
  "passes cols p r =
    (case snd p of
       None \<Rightarrow> True
     | Some sel \<Rightarrow> if sel \<noteq> [] \<and> fst p \<in> set cols then r (fst p) \<in> set sel else True)"

text \<open>
  The second selection constrains at least as much as the first: the first is inactive, or
  both are active and the second selects among the values of the first. For the search
  box: the first is empty, or both hold the same text.
\<close>

definition narrows :: "cell list option \<Rightarrow> cell list option \<Rightarrow> bool" where
  "narrows s1 s2 =
    (case s1 of
       None \<Rightarrow> True
     | Some a \<Rightarrow>
        (if a = [] then True
         else case s2 of None \<Rightarrow> False | Some b \<Rightarrow> b \<noteq> [] \<and> set b \<subseteq> set a))"

definition more_constrained :: "filter_spec \<Rightarrow> filter_spec \<Rightarrow> bool" where
  "more_constrained fs1 fs2 =
    (list_all2 narrows (map snd (selections fs1)) (map snd (selections fs2))
     \<and> (w_text fs1 = [] \<or> w_text fs2 = w_text fs1))"

definition single_country :: "cell \<Rightarrow> bool" where
  "single_country c = (case c of Str s \<Rightarrow> 59 \<notin> set s | Num x \<Rightarrow> False | NaN \<Rightarrow> False)"

text \<open>
  A user who picks nothing and types nothing, and one who picks \<open>ID\<close> among the host
  parties. \<open>nothing_offered\<close> is what the widgets return on a table that has none of the
  eight columns.
\<close>

definition nobody :: sidebar where
  "nobody = \<lparr>picked = (\<lambda>label. []), typed = []\<rparr>"

definition picks_ID :: sidebar where
  "picks_ID =
    \<lparr>picked = (\<lambda>label. if label = u ''Host Party'' then [Str (u ''ID'')] else []),
     typed = []\<rparr>"

definition nothing_offered :: filter_spec where
  "nothing_offered =
    \<lparr>w_region = None, w_subregion = None, w_host = None, w_type = None,
     w_type1 = None, w_transition = None, w_method = None, w_approved = None,
     w_text = []\<rparr>"

text \<open>The table of the end-to-end example, under the column names the program reads.\<close>

definition example_table :: dataframe where
  "example_table =
    \<lparr>columns = [u ''Host country'', u ''Transition Request'', u ''Reductions (ktCO2e/yr)''],
     rows =
       [(\<lambda>c. NaN)(u ''Host country'' := Str (u ''ID''),
                   u ''Transition Request'' := Str (u ''Yes''),
                   u ''Reductions (ktCO2e/yr)'' := Str (u ''12.5'')),
        (\<lambda>c. NaN)(u ''Host country'' := Str (u ''CL; EG''),
                   u ''Transition Request'' := Str (u ''No''),
                   u ''Reductions (ktCO2e/yr)'' := Str (u ''bad''))]\<rparr>"

text \<open>A table whose column \<open>Region\<close> holds a text in one row and a number in the other.\<close>

definition mixed_table :: dataframe where
  "mixed_table =
    \<lparr>columns = [u ''Region''], rows = [(\<lambda>c. Str (u ''Asia'')), (\<lambda>c. Num 7)]\<rparr>"

text \<open>
  Two abbreviations for the proofs. \<open>selected\<close> is the table after the eight calls of
  \<open>filt\<close>; \<open>expand\<close> is what the steps of \<open>make_exploded_for_geo\<close> make of one row.
  Both are shown below to agree with the functions they abbreviate
  (\<open>apply_spec_selected\<close>, \<open>make_exploded_rows\<close>).
\<close>

definition selected :: "dataframe \<Rightarrow> filter_spec \<Rightarrow> dataframe" where
  "selected df fs = foldl (\<lambda>out p. filt (fst p) (snd p) out) df (selections fs)"

definition expand :: "library \<Rightarrow> row \<Rightarrow> row list" where
  "expand L r =
    (let toks = split_countries L (r (u ''Host country''));
         ex = (if toks = [] then [r(u ''host_token'' := NaN)]
               else map (\<lambda>t. r(u ''host_token'' := Str t)) toks);
         ex = map (\<lambda>r. r(u ''country_clean'' :=
                 Str (strip L (py_str L (r (u ''host_token'')))))) ex;
         ex = map (\<lambda>r. r(u ''iso3'' :=
                 (case token_to_iso3 L (py_str L (r (u ''country_clean''))) of
                    None \<Rightarrow> NaN | Some code \<Rightarrow> Str code))) ex
     in filter (\<lambda>r. \<not> isna (r (u ''iso3''))) ex)"

section \<open>Evaluation and auxiliary facts\<close>

lemmas text_eval = strip_def isspace_def ascii_isspace_def u_def lower_def upper_def is_ascii_def
  ascii_lower_def ascii_upper_def isalpha_def ascii_isalpha_def

lemmas small_lib_eval = small_lib_def iso_countries_def read_decimal_def digits_def digits_val_def

subsection \<open>The libraries\<close>

lemma small_lib_codes:
  "countries_get_alpha_2 small_lib (u ''ID'') =
     Some \<lparr>alpha_2 = u ''ID'', alpha_3 = u ''IDN'', name = u ''Indonesia''\<rparr>"
  "countries_get_alpha_2 small_lib (u ''CL'') =
     Some \<lparr>alpha_2 = u ''CL'', alpha_3 = u ''CHL'', name = u ''Chile''\<rparr>"
  "countries_get_alpha_2 small_lib (u ''EG'') =
     Some \<lparr>alpha_2 = u ''EG'', alpha_3 = u ''EGY'', name = u ''Egypt''\<rparr>"
  by (simp_all add: small_lib_eval u_def ascii_lower_def)

lemma small_lib_numbers:
  "to_numeric_str small_lib (u ''12.5'') = Some (25 / 2)"
  "to_numeric_str small_lib (u ''bad'') = None"
  by (simp_all add: small_lib_eval u_def)



subsection \<open>The resolver\<close>






subsection \<open>The filter proper\<close>

lemma columns_filt [simp]: "columns (filt c s out) = columns out"
  by (simp add: filt_def split: option.splits)

lemma rows_filt: "rows (filt c s out) = filter (passes (columns out) (c, s)) (rows out)"
  by (cases s) (auto simp: filt_def passes_def intro!: filter_cong)

lemma filt_fold_columns [simp]:
  "columns (foldl (\<lambda>out p. filt (fst p) (snd p) out) df ps) = columns df"
  by (induction ps arbitrary: df) simp_all

lemma filt_fold_rows:
  "rows (foldl (\<lambda>out p. filt (fst p) (snd p) out) df ps)
     = filter (\<lambda>r. list_all (\<lambda>p. passes (columns df) p r) ps) (rows df)"
proof (induction ps arbitrary: df)
  case Nil
  show ?case by simp
next
  case (Cons p ps)
  show ?case
    by (simp add: Cons.IH rows_filt conj_commute)
qed

lemma apply_spec_selected:
  "apply_spec L df fs =
    (if u ''Title'' \<in> set (columns df) \<and> w_text fs \<noteq> [] then
       (case str_contains L (w_text fs) of
          Inl e \<Rightarrow> Inl e
        | Inr m \<Rightarrow> Inr ((selected df fs)\<lparr>rows :=
               filter (\<lambda>r. m (py_str L (r (u ''Title'')))) (rows (selected df fs))\<rparr>))
     else Inr (selected df fs))"
  by (simp add: apply_spec_def selected_def selections_def Let_def split: sum.splits)

lemma selected_rows:
  "rows (selected df fs)
     = filter (\<lambda>r. list_all (\<lambda>p. passes (columns df) p r) (selections fs)) (rows df)"
  by (simp add: selected_def filt_fold_rows)

lemma selected_columns [simp]: "columns (selected df fs) = columns df"
  by (simp add: selected_def)

lemma filt_inactive: "inactive s \<Longrightarrow> filt c s out = out"
  by (auto simp: inactive_def filt_def)

lemma filt_absent: "c \<notin> set (columns out) \<Longrightarrow> filt c s out = out"
  by (auto simp: filt_def split: option.splits)

lemma selected_no_constraint:
  "list_all (\<lambda>p. inactive (snd p)) (selections fs) \<Longrightarrow> selected df fs = df"
  by (simp add: selected_def selections_def filt_inactive)

lemma apply_spec_no_constraint: "no_constraint fs \<Longrightarrow> apply_spec L df fs = Inr df"
  by (simp add: apply_spec_selected no_constraint_def selected_no_constraint)

lemma selected_host_only:
  "host_only fs \<Longrightarrow> selected df fs = filt (u ''Host country'') (w_host fs) df"
  by (simp add: selected_def selections_def host_only_def filt_inactive)

lemma narrows_passes: "narrows s1 s2 \<Longrightarrow> passes cols (c, s2) r \<Longrightarrow> passes cols (c, s1) r"
  by (auto simp: narrows_def passes_def split: option.splits if_splits)

lemma subseq_filter_mono:
  assumes "\<And>x. P x \<Longrightarrow> Q x"
  shows "subseq (filter P xs) (filter Q xs)"
proof -
  have "filter P xs = filter P (filter Q xs)"
    using assms by (auto intro: filter_cong)
  then show ?thesis by (metis subseq_filter_left)
qed

lemma more_constrained_passes:
  assumes "list_all2 narrows (map snd (selections fs1)) (map snd (selections fs2))"
    and "list_all (\<lambda>p. passes cols p r) (selections fs2)"
  shows "list_all (\<lambda>p. passes cols p r) (selections fs1)"
  using assms by (auto simp: selections_def intro: narrows_passes)

lemma selected_subseq:
  assumes "list_all2 narrows (map snd (selections fs1)) (map snd (selections fs2))"
  shows "subseq (rows (selected df fs2)) (rows (selected df fs1))"
  unfolding selected_rows
  by (rule subseq_filter_mono) (rule more_constrained_passes [OF assms])

lemma selected_subseq_rows: "subseq (rows (selected df fs)) (rows df)"
  by (simp add: selected_rows)

lemma apply_spec_rows:
  assumes "apply_spec L df fs = Inr out"
  shows "columns out = columns df \<and> subseq (rows out) (rows (selected df fs))"
  using assms
  by (auto simp: apply_spec_selected split: if_splits sum.splits)

lemma apply_spec_passes:
  assumes "apply_spec L df fs = Inr out" and "r \<in> set (rows out)"
  shows "list_all (\<lambda>p. passes (columns df) p r) (selections fs)"
  using assms
  by (auto simp: apply_spec_selected selected_rows split: if_splits sum.splits)

lemma not_single_CL_EG: "\<not> single_country (Str (u ''CL; EG''))"
  by (simp add: single_country_def u_def)

text \<open>
  The filter proper narrows: a second input that constrains at least as much as a first
  keeps rows among those the first keeps, unless its search text fails to compile.
\<close>

lemma apply_spec_monotone:
  assumes "more_constrained fs1 fs2"
  shows "(\<exists>t1 t2. apply_spec L df fs1 = Inr t1 \<and> apply_spec L df fs2 = Inr t2
            \<and> subseq (rows t2) (rows t1) \<and> length (rows t2) \<le> length (rows t1))
       \<or> (\<exists>e. apply_spec L df fs2 = Inl e \<and> str_contains L (w_text fs2) = Inl e)"
proof -
  from assms have n: "list_all2 narrows (map snd (selections fs1)) (map snd (selections fs2))"
    and t: "w_text fs1 = [] \<or> w_text fs2 = w_text fs1"
    by (simp_all add: more_constrained_def)
  have s: "subseq (rows (selected df fs2)) (rows (selected df fs1))"
    by (rule selected_subseq [OF n])
  show ?thesis
  proof (cases "u ''Title'' \<in> set (columns df) \<and> w_text fs2 \<noteq> []")
    case False
    then have 2: "apply_spec L df fs2 = Inr (selected df fs2)"
      by (auto simp: apply_spec_selected)
    from False t have 1: "apply_spec L df fs1 = Inr (selected df fs1)"
      by (auto simp: apply_spec_selected)
    from 1 2 s show ?thesis by (auto intro: list_emb_length)
  next
    case True
    show ?thesis
    proof (cases "str_contains L (w_text fs2)")
      case (Inl e)
      with True show ?thesis by (simp add: apply_spec_selected)
    next
      case (Inr m)
      let ?t2 = "(selected df fs2)\<lparr>rows :=
               filter (\<lambda>r. m (py_str L (r (u ''Title'')))) (rows (selected df fs2))\<rparr>"
      from True Inr have 2: "apply_spec L df fs2 = Inr ?t2"
        by (simp add: apply_spec_selected)
      have f: "subseq (rows ?t2) (rows (selected df fs2))"
        by simp
      show ?thesis
      proof (cases "w_text fs1 = []")
        case True
        then have 1: "apply_spec L df fs1 = Inr (selected df fs1)"
          by (simp add: apply_spec_selected)
        from f s have "subseq (rows ?t2) (rows (selected df fs1))"
          by (rule subseq_order.trans)
        with 1 2 show ?thesis by (auto intro: list_emb_length)
      next
        case False
        with t have e: "w_text fs2 = w_text fs1" by simp
        let ?t1 = "(selected df fs1)\<lparr>rows :=
               filter (\<lambda>r. m (py_str L (r (u ''Title'')))) (rows (selected df fs1))\<rparr>"
        from True Inr e have 1: "apply_spec L df fs1 = Inr ?t1"
          by (simp add: apply_spec_selected)
        have "subseq (rows ?t2) (rows ?t1)"
          using s by (simp add: subseq_filter)
        with 1 2 show ?thesis by (auto intro: list_emb_length)
      qed
    qed
  qed
qed

subsection \<open>The sidebar\<close>

lemma then_do_simps [simp]:
  "then_do (Inr x) f = f x" "then_do (Inl e) f = Inl e"
  by (simp_all add: then_do_def)

lemma then_do_returns: "(then_do m f = Inr y) = (\<exists>x. m = Inr x \<and> f x = Inr y)"
  by (cases m) simp_all

text \<open>\<open>apply_filters\<close> draws the sidebar and then filters with what the widgets returned.\<close>

lemma then_do_assoc: "then_do (then_do m f) g = then_do m (\<lambda>x. then_do (f x) g)"
  by (cases m) simp_all

lemma apply_filters_draw:
  "apply_filters L ui df = then_do (draw_filters ui df) (apply_spec L df)"
  by (simp add: apply_filters_def draw_filters_def then_do_assoc apply_spec_def Let_def
        cong del: if_weak_cong)

lemma apply_filters_drawn:
  "draw_filters ui df = Inr fs \<Longrightarrow> apply_filters L ui df = apply_spec L df fs"
  by (simp add: apply_filters_draw)

lemma apply_filters_returns:
  "apply_filters L ui df = Inr out
   \<Longrightarrow> \<exists>fs. draw_filters ui df = Inr fs \<and> apply_spec L df fs = Inr out"
  by (simp add: apply_filters_draw then_do_returns)

lemma apply_filters_not_drawn:
  "draw_filters ui df = Inl e \<Longrightarrow> apply_filters L ui df = Inl e"
  by (simp add: apply_filters_draw)

lemma multiselect_absent:
  "col \<notin> set (columns df) \<Longrightarrow> multiselect ui df col label = Inr None"
  by (simp add: multiselect_def)

lemma draw_title_table:
  "columns df = [u ''Title'']
   \<Longrightarrow> draw_filters ui df = Inr (nothing_offered\<lparr>w_text := typed ui\<rparr>)"
  by (simp add: draw_filters_def multiselect_def nothing_offered_def u_def)

lemma no_constraint_nothing_offered: "no_constraint nothing_offered"
  by (simp add: no_constraint_def nothing_offered_def selections_def inactive_def)

lemma selected_nothing_offered: "selected df (nothing_offered\<lparr>w_text := pat\<rparr>) = df"
  by (rule selected_no_constraint)
     (simp add: nothing_offered_def selections_def inactive_def)

text \<open>The identity law, for a sidebar that can be drawn.\<close>

lemma apply_filters_no_constraint:
  "draw_filters ui df = Inr fs \<Longrightarrow> no_constraint fs \<Longrightarrow> apply_filters L ui df = Inr df"
  by (simp add: apply_filters_drawn apply_spec_no_constraint)

text \<open>A search text with a metacharacter goes to the regular-expression engine.\<close>

lemma text_search_regex:
  assumes "\<not> plain (typed ui)" and "columns df = [u ''Title'']"
  shows "apply_filters L ui df =
    (case re_error L (typed ui) of
       Some e \<Rightarrow> Inl e
     | None \<Rightarrow>
         Inr (df\<lparr>rows :=
           filter (\<lambda>r. re_search L (typed ui) (py_str L (r (u ''Title'')))) (rows df)\<rparr>))"
proof -
  from assms(1) have "typed ui \<noteq> []" by (auto simp: plain_def)
  with assms show ?thesis
    by (simp add: apply_filters_drawn [OF draw_title_table [OF assms(2)]]
          apply_spec_selected selected_nothing_offered str_contains_def split: option.splits)
qed

text \<open>
  The filter narrows for two users at the same table, where both get a result:
  the rows of the second are among the rows of the first.
\<close>

lemma apply_filters_monotone:
  assumes "draw_filters ui1 df = Inr fs1" and "draw_filters ui2 df = Inr fs2"
    and "more_constrained fs1 fs2"
    and "apply_filters L ui1 df = Inr t1" and "apply_filters L ui2 df = Inr t2"
  shows "subseq (rows t2) (rows t1) \<and> length (rows t2) \<le> length (rows t1)"
  using apply_spec_monotone [OF assms(3), of L df] assms(4,5)
  by (auto simp: apply_filters_drawn [OF assms(1)] apply_filters_drawn [OF assms(2)])

subsection \<open>The values offered for selection\<close>

lemma strs_all: "length (strs cs) = length cs \<Longrightarrow> map Str (strs cs) = cs"
proof (induction cs)
  case Nil
  show ?case by (simp add: strs_def)
next
  case (Cons c cs)
  have le: "length (strs cs) \<le> length cs"
    by (induction cs) (auto simp: strs_def split: cell.splits)
  from Cons.prems le obtain s where c: "c = Str s"
    by (cases c) (auto simp: strs_def)
  with Cons show ?case by (simp add: strs_def)
qed

lemma nums_all: "length (nums cs) = length cs \<Longrightarrow> map Num (nums cs) = cs"
proof (induction cs)
  case Nil
  show ?case by (simp add: nums_def)
next
  case (Cons c cs)
  have le: "length (nums cs) \<le> length cs"
    by (induction cs) (auto simp: nums_def split: cell.splits)
  from Cons.prems le obtain x where c: "c = Num x"
    by (cases c) (auto simp: nums_def)
  with Cons show ?case by (simp add: nums_def)
qed

lemma sorted_cells_set:
  assumes "sorted_cells cs = Inr opts"
  shows "set opts = set cs"
proof (cases "length (strs cs) = length cs")
  case True
  with assms have "opts = map Str (sort (strs cs))" by (simp add: sorted_cells_def)
  then have "set opts = set (map Str (strs cs))" by simp
  with strs_all [OF True] show ?thesis by simp
next
  case False
  with assms have n: "length (nums cs) = length cs"
    by (simp add: sorted_cells_def split: if_splits)
  with assms False have "opts = map Num (sort (nums cs))" by (simp add: sorted_cells_def)
  then have "set opts = set (map Num (nums cs))" by simp
  with nums_all [OF n] show ?thesis by simp
qed

text \<open>
  A widget returns a selection only for a column of the table, and every value of the
  selection is the whole cell of some row, picked by the user.
\<close>

lemma multiselect_cells:
  assumes "multiselect ui df col label = Inr (Some sel)"
  shows "col \<in> set (columns df)
       \<and> set sel = set (picked ui label) \<inter> ({r col |r. r \<in> set (rows df)} - {NaN})"
proof -
  from assms have c: "col \<in> set (columns df)"
    by (auto simp: multiselect_def split: if_splits)
  with assms obtain opts where
    o: "sorted_cells (remdups (filter (\<lambda>c. \<not> isna c) (map (\<lambda>r. r col) (rows df)))) = Inr opts"
    and s: "sel = filter (\<lambda>x. x \<in> set opts) (picked ui label)"
    by (auto simp: multiselect_def split: sum.splits)
  from sorted_cells_set [OF o] have "set opts = {r col |r. r \<in> set (rows df)} - {NaN}"
    by (auto simp: isna_def)
  with s c show ?thesis by auto
qed

lemma draw_host:
  assumes "draw_filters ui df = Inr fs"
  shows "multiselect ui df (u ''Host country'') (u ''Host Party'') = Inr (w_host fs)"
  using assms
  by (auto simp: draw_filters_def then_do_def split: sum.splits)

lemma draw_text: "draw_filters ui df = Inr fs \<Longrightarrow> w_text fs = typed ui"
  by (auto simp: draw_filters_def then_do_def split: sum.splits)

lemma example_draw:
  "draw_filters ui example_table =
     Inr (nothing_offered
       \<lparr>w_host := Some (filter (\<lambda>x. x \<in> set [Str (u ''CL; EG''), Str (u ''ID'')])
                         (picked ui (u ''Host Party''))),
        w_transition := Some (filter (\<lambda>x. x \<in> set [Str (u ''No''), Str (u ''Yes'')])
                               (picked ui (u ''Transition Request''))),
        w_text := typed ui\<rparr>)"
  by (simp add: draw_filters_def multiselect_def sorted_cells_def strs_def isna_def
        example_table_def nothing_offered_def u_def)

lemma example_draw_nobody:
  "draw_filters nobody example_table =
     Inr (nothing_offered\<lparr>w_host := Some [], w_transition := Some []\<rparr>)"
  by (simp add: example_draw) (simp add: nobody_def nothing_offered_def)

lemma example_draw_ID:
  "draw_filters picks_ID example_table =
     Inr (nothing_offered\<lparr>w_host := Some [Str (u ''ID'')], w_transition := Some []\<rparr>)"
  by (simp add: example_draw) (simp add: picks_ID_def nothing_offered_def u_def)

lemma no_constraint_example:
  "no_constraint (nothing_offered\<lparr>w_host := Some [], w_transition := Some []\<rparr>)"
  by (simp add: no_constraint_def nothing_offered_def selections_def inactive_def)

lemma host_only_example:
  "host_only (nothing_offered\<lparr>w_host := Some sel, w_transition := Some []\<rparr>)"
  by (simp add: host_only_def nothing_offered_def inactive_def)

text \<open>A column that mixes texts and numbers: the widget cannot sort its options.\<close>

lemma mixed_multiselect:
  "multiselect ui mixed_table (u ''Region'') (u ''Region'') = Inl TypeError"
  by (simp add: multiselect_def mixed_table_def sorted_cells_def strs_def nums_def isna_def)

lemma mixed_draw: "draw_filters ui mixed_table = Inl TypeError"
  by (simp add: draw_filters_def mixed_multiselect)

subsection \<open>Expansion\<close>

lemma make_exploded_rows:
  assumes "u ''Host country'' \<in> set (columns df)"
  shows "\<exists>ex. make_exploded_for_geo L df = Inr ex \<and> rows ex = concat (map (expand L) (rows df))"
  using assms
  by (simp add: make_exploded_for_geo_def explode_def assign_def expand_def [abs_def] Let_def
        map_concat filter_concat comp_def)

lemma make_exploded_absent:
  "u ''Host country'' \<notin> set (columns df)
   \<Longrightarrow> make_exploded_for_geo L df = Inl (KeyError (u ''Host country''))"
  by (simp add: make_exploded_for_geo_def)

lemma strip_nan: "strip L (u ''nan'') = u ''nan''"
  by (simp add: text_eval)

lemma token_nan: "token_to_iso3 L (u ''nan'') = None"
  by (simp add: token_to_iso3_def text_eval)

lemma expand_missing: "r (u ''Host country'') = NaN \<Longrightarrow> expand L r = []"
  by (simp add: expand_def split_countries_def isna_def py_str_def strip_nan token_nan)

lemma split_CL_EG_Multiple:
  "split_countries L (Str (u ''CL; EG; Multiple'')) = [u ''CL'', u ''EG'']"
  by (simp add: split_countries_def isna_def py_str_def text_eval)

lemma split_CL_EG:
  "split_countries L (Str (u ''CL; EG'')) = [u ''CL'', u ''EG'']"
  by (simp add: split_countries_def isna_def py_str_def text_eval)

lemma split_ID:
  "split_countries L (Str (u ''ID'')) = [u ''ID'']"
  by (simp add: split_countries_def isna_def py_str_def text_eval)

lemma token_CL:
  "countries_get_alpha_2 L (u ''CL'') = Some c \<Longrightarrow> alpha_3 c = code
   \<Longrightarrow> token_to_iso3 L (u ''CL'') = Some code"
  by (simp add: token_to_iso3_def SPECIAL_ISO3_def text_eval)

lemma token_EG:
  "countries_get_alpha_2 L (u ''EG'') = Some c \<Longrightarrow> alpha_3 c = code
   \<Longrightarrow> token_to_iso3 L (u ''EG'') = Some code"
  by (simp add: token_to_iso3_def SPECIAL_ISO3_def text_eval)

lemma token_ID:
  "countries_get_alpha_2 L (u ''ID'') = Some c \<Longrightarrow> alpha_3 c = code
   \<Longrightarrow> token_to_iso3 L (u ''ID'') = Some code"
  by (simp add: token_to_iso3_def SPECIAL_ISO3_def text_eval)

lemma strip_codes:
  "strip L (u ''CL'') = u ''CL''" "strip L (u ''EG'') = u ''EG''" "strip L (u ''ID'') = u ''ID''"
  by (simp_all add: text_eval)

lemma column_names_distinct:
  "u ''host_token'' \<noteq> u ''country_clean''" "u ''host_token'' \<noteq> u ''iso3''"
  "u ''country_clean'' \<noteq> u ''iso3''" "u ''country_clean'' \<noteq> u ''host_token''"
  "u ''iso3'' \<noteq> u ''host_token''" "u ''iso3'' \<noteq> u ''country_clean''"
  by (simp_all add: u_def)

lemma expand_CL_EG_Multiple:
  assumes "countries_get_alpha_2 L (u ''CL'') = Some c1" and "alpha_3 c1 = u ''CHL''"
    and "countries_get_alpha_2 L (u ''EG'') = Some c2" and "alpha_3 c2 = u ''EGY''"
    and "r (u ''Host country'') = Str (u ''CL; EG; Multiple'')"
  shows "expand L r =
     [r(u ''host_token'' := Str (u ''CL''), u ''country_clean'' := Str (u ''CL''),
        u ''iso3'' := Str (u ''CHL'')),
      r(u ''host_token'' := Str (u ''EG''), u ''country_clean'' := Str (u ''EG''),
        u ''iso3'' := Str (u ''EGY''))]"
  using assms(5) token_CL [OF assms(1,2)] token_EG [OF assms(3,4)]
  by (simp add: expand_def split_CL_EG_Multiple py_str_def strip_codes column_names_distinct
        isna_def)

lemma expand_CL_EG:
  assumes "countries_get_alpha_2 L (u ''CL'') = Some c1" and "alpha_3 c1 = u ''CHL''"
    and "countries_get_alpha_2 L (u ''EG'') = Some c2" and "alpha_3 c2 = u ''EGY''"
    and "r (u ''Host country'') = Str (u ''CL; EG'')"
  shows "expand L r =
     [r(u ''host_token'' := Str (u ''CL''), u ''country_clean'' := Str (u ''CL''),
        u ''iso3'' := Str (u ''CHL'')),
      r(u ''host_token'' := Str (u ''EG''), u ''country_clean'' := Str (u ''EG''),
        u ''iso3'' := Str (u ''EGY''))]"
  using assms(5) token_CL [OF assms(1,2)] token_EG [OF assms(3,4)]
  by (simp add: expand_def split_CL_EG py_str_def strip_codes column_names_distinct isna_def)

lemma expand_ID:
  assumes "countries_get_alpha_2 L (u ''ID'') = Some c" and "alpha_3 c = u ''IDN''"
    and "r (u ''Host country'') = Str (u ''ID'')"
  shows "expand L r =
     [r(u ''host_token'' := Str (u ''ID''), u ''country_clean'' := Str (u ''ID''),
        u ''iso3'' := Str (u ''IDN''))]"
  using assms(3) token_ID [OF assms(1,2)]
  by (simp add: expand_def split_ID py_str_def strip_codes column_names_distinct isna_def)

subsection \<open>The page\<close>

lemma apply_filters_rows:
  assumes "apply_filters L ui df = Inr out"
  shows "columns out = columns df \<and> subseq (rows out) (rows df)"
proof -
  from apply_filters_returns [OF assms] obtain fs where "apply_spec L df fs = Inr out"
    by auto
  from apply_spec_rows [OF this] selected_subseq_rows [of df fs] show ?thesis
    by (blast intro: subseq_order.trans)
qed

lemma app_returns:
  assumes "apply_filters L ui df = Inr df_f" and "u ''Host country'' \<in> set (columns df)"
  shows "\<exists>p. app L ui df = Inr p"
proof -
  from apply_filters_rows [OF assms(1)] assms(2)
  have "u ''Host country'' \<in> set (columns df_f)" by simp
  from make_exploded_rows [OF this, of L] assms(1) show ?thesis
    by (auto simp: app_def)
qed

text \<open>The figures are guarded: a missing column gives zero.\<close>

lemma figures_absent:
  "u ''Transition Request'' \<notin> set (columns df) \<Longrightarrow> requested_transition L df = 0"
  "u ''Approved by Host Party'' \<notin> set (columns df) \<Longrightarrow> approved_yes L df = 0"
  "u ''Reductions (ktCO2e/yr)'' \<notin> set (columns df) \<Longrightarrow> reductions_sum L df = 0"
  by (simp_all add: requested_transition_def approved_yes_def count_yes_def reductions_sum_def)

lemma example_columns:
  "u ''Host country'' \<in> set (columns example_table)"
  "u ''Transition Request'' \<in> set (columns example_table)"
  "u ''Reductions (ktCO2e/yr)'' \<in> set (columns example_table)"
  "u ''Approved by Host Party'' \<notin> set (columns example_table)"
  by (simp_all add: example_table_def u_def)

lemma example_k2: "requested_transition L example_table = 1"
  by (simp add: requested_transition_def count_yes_def example_columns)
     (simp add: example_table_def py_str_def text_eval)

lemma example_k4:
  assumes "to_numeric_str L (u ''12.5'') = Some (25 / 2)"
    and "to_numeric_str L (u ''bad'') = None"
  shows "reductions_sum L example_table = 25 / 2"
proof -
  have "map (\<lambda>r. fillna0 (to_numeric L (r (u ''Reductions (ktCO2e/yr)''))))
          (rows example_table)
      = [fillna0 (to_numeric_str L (u ''12.5'')), fillna0 (to_numeric_str L (u ''bad''))]"
    by (simp add: example_table_def to_numeric_def u_def)
  with assms have "map (\<lambda>r. fillna0 (to_numeric L (r (u ''Reductions (ktCO2e/yr)''))))
          (rows example_table) = [25 / 2, 0]"
    by (simp add: fillna0_def)
  then show ?thesis
    by (simp add: reductions_sum_def example_columns)
qed

lemma example_expansion:
  assumes "countries_get_alpha_2 L (u ''ID'') = Some c0" and "alpha_3 c0 = u ''IDN''"
    and "countries_get_alpha_2 L (u ''CL'') = Some c1" and "alpha_3 c1 = u ''CHL''"
    and "countries_get_alpha_2 L (u ''EG'') = Some c2" and "alpha_3 c2 = u ''EGY''"
  shows "\<exists>ex. make_exploded_for_geo L example_table = Inr ex
     \<and> map (\<lambda>r. r (u ''iso3'')) (rows ex)
         = [Str (u ''IDN''), Str (u ''CHL''), Str (u ''EGY'')]"
proof -
  obtain ex where ex: "make_exploded_for_geo L example_table = Inr ex"
    "rows ex = concat (map (expand L) (rows example_table))"
    using make_exploded_rows [OF example_columns(1), of L] by auto
  let ?r1 = "(\<lambda>c. NaN)(u ''Host country'' := Str (u ''ID''),
                   u ''Transition Request'' := Str (u ''Yes''),
                   u ''Reductions (ktCO2e/yr)'' := Str (u ''12.5''))"
  let ?r2 = "(\<lambda>c. NaN)(u ''Host country'' := Str (u ''CL; EG''),
                   u ''Transition Request'' := Str (u ''No''),
                   u ''Reductions (ktCO2e/yr)'' := Str (u ''bad''))"
  have h1: "?r1 (u ''Host country'') = Str (u ''ID'')" by (simp add: u_def)
  have h2: "?r2 (u ''Host country'') = Str (u ''CL; EG'')" by (simp add: u_def)
  have "map (\<lambda>r. r (u ''iso3'')) (concat (map (expand L) (rows example_table)))
      = [Str (u ''IDN''), Str (u ''CHL''), Str (u ''EGY'')]"
    unfolding example_table_def
    by (simp add: expand_ID [where r = "?r1", OF assms(1,2) h1]
          expand_CL_EG [where r = "?r2", OF assms(3-6) h2])
  with ex show ?thesis by simp
qed

lemma geo_counts_example:
  assumes "map (\<lambda>r. r (u ''iso3'')) (rows ex)
             = [Str (u ''IDN''), Str (u ''CHL''), Str (u ''EGY'')]"
  shows "geo_counts ex = [(u ''CHL'', 1), (u ''EGY'', 1), (u ''IDN'', 1)]"
proof -
  have "concat (map (\<lambda>r. case r (u ''iso3'') of Str s \<Rightarrow> [s] | Num x \<Rightarrow> [] | NaN \<Rightarrow> [])
                  (rows ex))
      = concat (map (\<lambda>c. case c of Str s \<Rightarrow> [s] | Num x \<Rightarrow> [] | NaN \<Rightarrow> [])
                  (map (\<lambda>r. r (u ''iso3'')) (rows ex)))"
    by (simp add: comp_def)
  also have "\<dots> = [u ''IDN'', u ''CHL'', u ''EGY'']"
    by (simp add: assms)
  finally show ?thesis
    by (simp add: geo_counts_def u_def)
qed

subsection \<open>What the country database can change\<close>

lemma lower_countries [simp]:
  "lower (L\<lparr>countries_get_alpha_2 := g2, countries_get_alpha_3 := g3, countries_lookup := lk\<rparr>)
     = lower L"
  by (simp add: fun_eq_iff lower_def)

lemma py_str_countries [simp]:
  "py_str (L\<lparr>countries_get_alpha_2 := g2, countries_get_alpha_3 := g3, countries_lookup := lk\<rparr>)
     = py_str L"
  by (simp add: fun_eq_iff py_str_def split: cell.splits)

lemma str_contains_countries [simp]:
  "str_contains
       (L\<lparr>countries_get_alpha_2 := g2, countries_get_alpha_3 := g3, countries_lookup := lk\<rparr>)
     = str_contains L"
  by (simp add: fun_eq_iff str_contains_def split: option.splits)

lemma apply_spec_countries [simp]:
  "apply_spec
       (L\<lparr>countries_get_alpha_2 := g2, countries_get_alpha_3 := g3, countries_lookup := lk\<rparr>)
     = apply_spec L"
  by (simp add: fun_eq_iff apply_spec_def Let_def split: sum.splits)

lemma apply_filters_countries [simp]:
  "apply_filters
       (L\<lparr>countries_get_alpha_2 := g2, countries_get_alpha_3 := g3, countries_lookup := lk\<rparr>)
     = apply_filters L"
  by (simp add: fun_eq_iff apply_filters_draw)

lemma to_numeric_countries [simp]:
  "to_numeric
       (L\<lparr>countries_get_alpha_2 := g2, countries_get_alpha_3 := g3, countries_lookup := lk\<rparr>)
     = to_numeric L"
  by (simp add: fun_eq_iff to_numeric_def split: cell.splits)

lemma figures_countries [simp]:
  "count_yes
       (L\<lparr>countries_get_alpha_2 := g2, countries_get_alpha_3 := g3, countries_lookup := lk\<rparr>)
     = count_yes L"
  "reductions_sum
       (L\<lparr>countries_get_alpha_2 := g2, countries_get_alpha_3 := g3, countries_lookup := lk\<rparr>)
     = reductions_sum L"
  by (auto simp: fun_eq_iff count_yes_def reductions_sum_def Let_def)

lemma make_exploded_returns:
  "(\<exists>ex. make_exploded_for_geo L df = Inr ex) = (u ''Host country'' \<in> set (columns df))"
  by (simp add: make_exploded_for_geo_def Let_def)

lemma app_countries:
  assumes "app L ui df = Inr p"
  shows "\<exists>p'. app (L\<lparr>countries_get_alpha_2 := g2, countries_get_alpha_3 := g3,
                      countries_lookup := lk\<rparr>) ui df = Inr p'
      \<and> k1 p' = k1 p \<and> k2 p' = k2 p \<and> k3 p' = k3 p \<and> k4 p' = k4 p
      \<and> details p' = details p"
proof -
  let ?L = "L\<lparr>countries_get_alpha_2 := g2, countries_get_alpha_3 := g3, countries_lookup := lk\<rparr>"
  from assms obtain df_f ex where f: "apply_filters L ui df = Inr df_f"
    and e: "make_exploded_for_geo L df_f = Inr ex"
    by (auto simp: app_def split: sum.splits)
  from e have "u ''Host country'' \<in> set (columns df_f)"
    using make_exploded_returns [of L df_f] by auto
  then obtain ex' where e': "make_exploded_for_geo ?L df_f = Inr ex'"
    using make_exploded_returns [of ?L df_f] by auto
  from assms f e e' show ?thesis
    by (auto simp: app_def requested_transition_def approved_yes_def)
qed

subsection \<open>Selecting host countries\<close>

lemma apply_filters_host_only:
  assumes "draw_filters ui df = Inr fs" and "w_host fs = Some sel" and "sel \<noteq> []"
    and "host_only fs"
  shows "apply_filters L ui df
           = Inr (df\<lparr>rows := filter (\<lambda>r. r (u ''Host country'') \<in> set sel) (rows df)\<rparr>)"
proof -
  from draw_host [OF assms(1)] assms(2)
  have "multiselect ui df (u ''Host country'') (u ''Host Party'') = Inr (Some sel)"
    by simp
  from multiselect_cells [OF this] have c: "u ''Host country'' \<in> set (columns df)"
    by simp
  from assms(4) have t: "w_text fs = []" by (simp add: host_only_def)
  from c t assms(2,3) show ?thesis
    by (simp add: apply_filters_drawn [OF assms(1)] apply_spec_selected
          selected_host_only [OF assms(4)] filt_def)
qed

text \<open>
  Emptying a selection takes its constraint away (an empty selection is no filter), and
  the result may grow: it is not a case of \<open>more_constrained\<close>.
\<close>

lemma emptied_selection:
  "apply_filters L picks_ID example_table
     = Inr (example_table\<lparr>rows := [rows example_table ! 0]\<rparr>)
   \<and> apply_filters L nobody example_table = Inr example_table"
proof -
  have 1: "apply_filters L nobody example_table = Inr example_table"
    by (rule apply_filters_no_constraint [OF example_draw_nobody no_constraint_example])
  have 2: "filter (\<lambda>r. r (u ''Host country'') \<in> set [Str (u ''ID'')]) (rows example_table)
      = [rows example_table ! 0]"
    by (simp add: example_table_def u_def)
  have "apply_filters L picks_ID example_table
     = Inr (example_table\<lparr>rows := [rows example_table ! 0]\<rparr>)"
    using apply_filters_host_only [OF example_draw_ID _ _ host_only_example, of "[Str (u ''ID'')]" L]
      2
    by (simp add: nothing_offered_def)
  with 1 show ?thesis by simp
qed

section \<open>The claims\<close>

text \<open>
  Claim C1. The resolver maps \<open>ID\<close>, \<open>IDN\<close> and \<open>Indonesia\<close> to \<open>IDN\<close>, leaves
  \<open>Multiple\<close> and the empty text unresolved, and maps \<open>Viet Nam\<close> to \<open>VNM\<close> through the
  alias table. The first three answers come from the country database, so the theorem
  asks of the library that it knows Indonesia under these three keys; the last three hold
  for every library, whatever its name lookup would say: the alias table and the
  rejected texts come first.
\<close>

theorem resolve_examples:
  assumes "countries_get_alpha_2 L (u ''ID'') = Some c1" and "alpha_3 c1 = u ''IDN''"
    and "countries_get_alpha_3 L (u ''IDN'') = Some c2" and "alpha_3 c2 = u ''IDN''"
    and "countries_lookup L (u ''Indonesia'') = Inr c3" and "alpha_3 c3 = u ''IDN''"
  shows "token_to_iso3 L (u ''ID'') = Some (u ''IDN'')
       \<and> token_to_iso3 L (u ''IDN'') = Some (u ''IDN'')
       \<and> token_to_iso3 L (u ''Indonesia'') = Some (u ''IDN'')
       \<and> token_to_iso3 L (u ''Multiple'') = None
       \<and> token_to_iso3 L (u '''') = None
       \<and> token_to_iso3 L (u ''Viet Nam'') = Some (u ''VNM'')"
proof -
  have a: "token_to_iso3 L (u ''ID'') = Some (u ''IDN'')"
    using assms(1,2) by (simp add: token_to_iso3_def SPECIAL_ISO3_def text_eval)
  have b: "token_to_iso3 L (u ''IDN'') = Some (u ''IDN'')"
    using assms(3,4) by (simp add: token_to_iso3_def SPECIAL_ISO3_def text_eval)
  have c: "token_to_iso3 L (u ''Indonesia'') = Some (u ''IDN'')"
    using assms(5,6) by (simp add: token_to_iso3_def SPECIAL_ISO3_def text_eval)
  have d: "token_to_iso3 L (u ''Multiple'') = None"
    by (simp add: token_to_iso3_def text_eval)
  have e: "token_to_iso3 L (u '''') = None"
    by (simp add: token_to_iso3_def text_eval)
  have f: "token_to_iso3 L (u ''Viet Nam'') = Some (u ''VNM'')"
    by (simp add: token_to_iso3_def SPECIAL_ISO3_def text_eval)
  from a b c d e f show ?thesis by simp
qed

theorem resolve_examples_witness:
  "token_to_iso3 small_lib (u ''ID'') = Some (u ''IDN'')
   \<and> token_to_iso3 small_lib (u ''IDN'') = Some (u ''IDN'')
   \<and> token_to_iso3 small_lib (u ''Indonesia'') = Some (u ''IDN'')
   \<and> token_to_iso3 small_lib (u ''Multiple'') = None
   \<and> token_to_iso3 small_lib (u '''') = None
   \<and> token_to_iso3 small_lib (u ''Viet Nam'') = Some (u ''VNM'')"
proof -
  let ?c = "\<lparr>alpha_2 = u ''ID'', alpha_3 = u ''IDN'', name = u ''Indonesia''\<rparr>"
  have 1: "countries_get_alpha_2 small_lib (u ''ID'') = Some ?c"
    by (simp add: small_lib_eval u_def ascii_lower_def)
  have 2: "countries_get_alpha_3 small_lib (u ''IDN'') = Some ?c"
    by (simp add: small_lib_eval u_def ascii_lower_def)
  have 3: "countries_lookup small_lib (u ''Indonesia'') = Inr ?c"
    by (simp add: small_lib_eval u_def ascii_lower_def)
  have 4: "alpha_3 ?c = u ''IDN''" by simp
  show ?thesis by (rule resolve_examples [OF 1 4 2 4 3 4])
qed

text \<open>
  Claim C2. The text search is to keep exactly the rows whose title contains the query as
  a literal substring, up to case, and a row without a title is never to match. The
  program does neither. It turns the titles into texts first, so a missing title is
  the text \<open>nan\<close> when the search runs, and the query \<open>a\<close> keeps a row that has no title.
  It hands the query to the regular-expression engine, so the query \<open>(\<close>, which the
  title \<open>a(b\<close> contains, raises the engine's error instead of keeping the row.
\<close>

theorem text_search_not_literal:
  "apply_filters L (nobody\<lparr>typed := u ''a''\<rparr>) \<lparr>columns = [u ''Title''], rows = [\<lambda>c. NaN]\<rparr>
     = Inr \<lparr>columns = [u ''Title''], rows = [\<lambda>c. NaN]\<rparr>
   \<and> (re_error L (u ''('') = Some e \<longrightarrow>
        apply_filters L (nobody\<lparr>typed := u ''(''\<rparr>)
          \<lparr>columns = [u ''Title''], rows = [\<lambda>c. Str (u ''a(b'')]\<rparr> = Inl e)"
proof
  let ?T = "\<lparr>columns = [u ''Title''], rows = [\<lambda>c. NaN]\<rparr>"
  have d: "draw_filters (nobody\<lparr>typed := u ''a''\<rparr>) ?T
      = Inr (nothing_offered\<lparr>w_text := u ''a''\<rparr>)"
    using draw_title_table [of ?T "nobody\<lparr>typed := u ''a''\<rparr>"] by simp
  have p: "plain (u ''a'')" by (simp add: plain_def u_def ascii_isalpha_def)
  have m: "sublist (lower L (u ''a'')) (lower L (py_str L NaN))"
    by (simp add: py_str_def text_eval sublist_Cons_right)
  have a: "is_ascii (py_str L NaN)" by (simp add: py_str_def text_eval)
  show "apply_filters L (nobody\<lparr>typed := u ''a''\<rparr>) ?T = Inr ?T"
    by (simp add: apply_filters_drawn [OF d] apply_spec_selected selected_nothing_offered
          str_contains_def p m a)
next
  let ?T = "\<lparr>columns = [u ''Title''], rows = [\<lambda>c. Str (u ''a(b'')]\<rparr>"
  have n: "\<not> plain (typed (nobody\<lparr>typed := u ''(''\<rparr>))"
    by (simp add: plain_def u_def ascii_isalpha_def)
  have c: "columns ?T = [u ''Title'']" by simp
  show "re_error L (u ''('') = Some e \<longrightarrow>
        apply_filters L (nobody\<lparr>typed := u ''(''\<rparr>) ?T = Inl e"
    by (simp add: text_search_regex [OF n c])
qed

theorem text_search_not_literal_witness:
  "re_error small_lib (u ''('') = Some ReError
   \<and> apply_filters small_lib (nobody\<lparr>typed := u ''a''\<rparr>)
       \<lparr>columns = [u ''Title''], rows = [\<lambda>c. NaN]\<rparr>
     = Inr \<lparr>columns = [u ''Title''], rows = [\<lambda>c. NaN]\<rparr>
   \<and> apply_filters small_lib (nobody\<lparr>typed := u ''(''\<rparr>)
       \<lparr>columns = [u ''Title''], rows = [\<lambda>c. Str (u ''a(b'')]\<rparr> = Inl ReError"
proof -
  have 1: "re_error small_lib (u ''('') = Some ReError" by (simp add: small_lib_def)
  from text_search_not_literal [of small_lib ReError] 1 show ?thesis by simp
qed

text \<open>
  Claim C3. Every component is to fall back to a neutral value when a column it expects is
  absent. The filter and the figures do (\<open>filt_absent\<close>, \<open>multiselect_absent\<close>,
  \<open>figures_absent\<close>); the expansion does not: it reads the column \<open>Host country\<close>
  without asking whether the table has it, and on a table without that column it raises
  \<open>KeyError\<close>, and the page with it.
\<close>

theorem expander_missing_column:
  "make_exploded_for_geo L \<lparr>columns = [u ''Title''], rows = [\<lambda>c. Str (u ''x'')]\<rparr>
     = Inl (KeyError (u ''Host country''))
   \<and> app L nobody \<lparr>columns = [u ''Title''], rows = [\<lambda>c. Str (u ''x'')]\<rparr>
     = Inl (KeyError (u ''Host country''))"
proof -
  let ?T = "\<lparr>columns = [u ''Title''], rows = [\<lambda>c. Str (u ''x'')]\<rparr>"
  have c: "u ''Host country'' \<notin> set (columns ?T)"
    by (simp add: u_def)
  have m: "make_exploded_for_geo L ?T = Inl (KeyError (u ''Host country''))"
    by (rule make_exploded_absent [OF c])
  have d: "draw_filters nobody ?T = Inr nothing_offered"
    using draw_title_table [of ?T nobody] by (simp add: nobody_def nothing_offered_def)
  have f: "apply_filters L nobody ?T = Inr ?T"
    by (rule apply_filters_no_constraint [OF d no_constraint_nothing_offered])
  from m f show ?thesis by (simp add: app_def)
qed

text \<open>
  Claim C4. In any table that has the host-country column, a record whose cell is
  \<open>CL; EG; Multiple\<close> contributes exactly two rows to the expansion, \<open>CL\<close> with \<open>CHL\<close> and
  \<open>EG\<close> with \<open>EGY\<close>, and a record whose cell is missing contributes none. The record
  stands anywhere in the table: the rows before it and after it expand as they do on
  their own. The library is asked to know Chile and Egypt by their two-letter codes.
\<close>

theorem expand_example:
  assumes "countries_get_alpha_2 L (u ''CL'') = Some c1" and "alpha_3 c1 = u ''CHL''"
    and "countries_get_alpha_2 L (u ''EG'') = Some c2" and "alpha_3 c2 = u ''EGY''"
    and "u ''Host country'' \<in> set cols"
  shows "\<exists>ex exx exy.
      make_exploded_for_geo L \<lparr>columns = cols, rows = xs @ [r] @ ys\<rparr> = Inr ex
    \<and> make_exploded_for_geo L \<lparr>columns = cols, rows = xs\<rparr> = Inr exx
    \<and> make_exploded_for_geo L \<lparr>columns = cols, rows = ys\<rparr> = Inr exy
    \<and> (r (u ''Host country'') = Str (u ''CL; EG; Multiple'') \<longrightarrow>
         rows ex = rows exx @
           [r(u ''host_token'' := Str (u ''CL''), u ''country_clean'' := Str (u ''CL''),
              u ''iso3'' := Str (u ''CHL'')),
            r(u ''host_token'' := Str (u ''EG''), u ''country_clean'' := Str (u ''EG''),
              u ''iso3'' := Str (u ''EGY''))] @ rows exy)
    \<and> (r (u ''Host country'') = NaN \<longrightarrow> rows ex = rows exx @ rows exy)"
proof -
  from assms(5) obtain ex where ex:
    "make_exploded_for_geo L \<lparr>columns = cols, rows = xs @ [r] @ ys\<rparr> = Inr ex"
    "rows ex = concat (map (expand L) (xs @ [r] @ ys))"
    using make_exploded_rows [of "\<lparr>columns = cols, rows = xs @ [r] @ ys\<rparr>" L] by auto
  from assms(5) obtain exx where exx:
    "make_exploded_for_geo L \<lparr>columns = cols, rows = xs\<rparr> = Inr exx"
    "rows exx = concat (map (expand L) xs)"
    using make_exploded_rows [of "\<lparr>columns = cols, rows = xs\<rparr>" L] by auto
  from assms(5) obtain exy where exy:
    "make_exploded_for_geo L \<lparr>columns = cols, rows = ys\<rparr> = Inr exy"
    "rows exy = concat (map (expand L) ys)"
    using make_exploded_rows [of "\<lparr>columns = cols, rows = ys\<rparr>" L] by auto
  have "rows ex = rows exx @ expand L r @ rows exy"
    by (simp add: ex(2) exx(2) exy(2))
  with ex(1) exx(1) exy(1) show ?thesis
    by (auto simp: expand_missing expand_CL_EG_Multiple [OF assms(1-4)])
qed

theorem expand_example_witness:
  "(\<exists>ex. make_exploded_for_geo small_lib
        \<lparr>columns = [u ''Host country''],
         rows = [] @ [\<lambda>c. Str (u ''CL; EG; Multiple'')] @ []\<rparr> = Inr ex
      \<and> rows ex =
           [(\<lambda>c. Str (u ''CL; EG; Multiple''))
              (u ''host_token'' := Str (u ''CL''), u ''country_clean'' := Str (u ''CL''),
               u ''iso3'' := Str (u ''CHL'')),
            (\<lambda>c. Str (u ''CL; EG; Multiple''))
              (u ''host_token'' := Str (u ''EG''), u ''country_clean'' := Str (u ''EG''),
               u ''iso3'' := Str (u ''EGY''))])
   \<and> (\<exists>ex. make_exploded_for_geo small_lib
        \<lparr>columns = [u ''Host country''], rows = [] @ [\<lambda>c. NaN] @ []\<rparr> = Inr ex
      \<and> rows ex = [])"
proof -
  have e: "make_exploded_for_geo small_lib \<lparr>columns = [u ''Host country''], rows = []\<rparr>
      = Inr \<lparr>columns = [u ''Host country'', u ''host_token'', u ''country_clean'', u ''iso3''],
             rows = []\<rparr>"
    by (simp add: make_exploded_for_geo_def explode_def assign_def Let_def u_def)
  from expand_example [OF small_lib_codes(2) _ small_lib_codes(3),
      of "[u ''Host country'']" "[]" "\<lambda>c. Str (u ''CL; EG; Multiple'')" "[]"]
    expand_example [OF small_lib_codes(2) _ small_lib_codes(3),
      of "[u ''Host country'']" "[]" "\<lambda>c. NaN" "[]"]
    e
  show ?thesis by simp
qed




text \<open>
  Claim C6. With every selected set empty and no search text, the filter is to return the
  table it was given, for every table. It does where the sidebar can be drawn
  (\<open>apply_filters_no_constraint\<close>), and a selection that is empty or that names a
  column the table does not have leaves the table as it is (\<open>filt_inactive\<close>,
  \<open>filt_absent\<close>). But on a table whose column \<open>Region\<close> holds a text and a number the
  widget cannot sort its options: the function raises \<open>TypeError\<close> before it filters,
  for a user who selects nothing.
\<close>

theorem filter_identity_raises:
  "multiselect nobody mixed_table (u ''Region'') (u ''Region'') = Inl TypeError
   \<and> apply_filters L nobody mixed_table = Inl TypeError"
proof -
  have "draw_filters nobody mixed_table = Inl TypeError" by (rule mixed_draw)
  then have "apply_filters L nobody mixed_table = Inl TypeError"
    by (rule apply_filters_not_drawn)
  then show ?thesis by (simp add: mixed_multiselect)
qed

text \<open>
  Claim C7. A second filter input that adds a constraint to a first is to give a result
  with no more rows. Where both applications return, it does: the rows of the second are
  among the rows of the first (\<open>apply_filters_monotone\<close>). But a search text added by
  the second user is compiled as a regular expression. On the table with the one title
  \<open>a(b\<close> the first user, who asks nothing, gets the table; the second, who adds the
  search text \<open>(\<close>, gets the error of the engine and no table at all.
\<close>

theorem filter_monotone_raises:
  assumes "re_error L (u ''('') = Some e"
  shows "draw_filters nobody \<lparr>columns = [u ''Title''], rows = [\<lambda>c. Str (u ''a(b'')]\<rparr>
           = Inr nothing_offered
       \<and> draw_filters (nobody\<lparr>typed := u ''(''\<rparr>)
             \<lparr>columns = [u ''Title''], rows = [\<lambda>c. Str (u ''a(b'')]\<rparr>
           = Inr (nothing_offered\<lparr>w_text := u ''(''\<rparr>)
       \<and> more_constrained nothing_offered (nothing_offered\<lparr>w_text := u ''(''\<rparr>)
       \<and> apply_filters L nobody \<lparr>columns = [u ''Title''], rows = [\<lambda>c. Str (u ''a(b'')]\<rparr>
           = Inr \<lparr>columns = [u ''Title''], rows = [\<lambda>c. Str (u ''a(b'')]\<rparr>
       \<and> apply_filters L (nobody\<lparr>typed := u ''(''\<rparr>)
             \<lparr>columns = [u ''Title''], rows = [\<lambda>c. Str (u ''a(b'')]\<rparr>
           = Inl e"
proof -
  let ?T = "\<lparr>columns = [u ''Title''], rows = [\<lambda>c. Str (u ''a(b'')]\<rparr>"
  have d1: "draw_filters nobody ?T = Inr nothing_offered"
    using draw_title_table [of ?T nobody] by (simp add: nobody_def nothing_offered_def)
  have d2: "draw_filters (nobody\<lparr>typed := u ''(''\<rparr>) ?T
      = Inr (nothing_offered\<lparr>w_text := u ''(''\<rparr>)"
    using draw_title_table [of ?T "nobody\<lparr>typed := u ''(''\<rparr>"] by simp
  have m: "more_constrained nothing_offered (nothing_offered\<lparr>w_text := u ''(''\<rparr>)"
    by (simp add: more_constrained_def selections_def nothing_offered_def narrows_def)
  have a1: "apply_filters L nobody ?T = Inr ?T"
    by (rule apply_filters_no_constraint [OF d1 no_constraint_nothing_offered])
  have n: "\<not> plain (typed (nobody\<lparr>typed := u ''(''\<rparr>))"
    by (simp add: plain_def u_def ascii_isalpha_def)
  have c: "columns ?T = [u ''Title'']" by simp
  from assms have a2: "apply_filters L (nobody\<lparr>typed := u ''(''\<rparr>) ?T = Inl e"
    by (simp add: text_search_regex [OF n c])
  from d1 d2 m a1 a2 show ?thesis by simp
qed

theorem filter_monotone_raises_witness:
  "re_error small_lib (u ''('') = Some ReError
   \<and> apply_filters small_lib nobody \<lparr>columns = [u ''Title''], rows = [\<lambda>c. Str (u ''a(b'')]\<rparr>
       = Inr \<lparr>columns = [u ''Title''], rows = [\<lambda>c. Str (u ''a(b'')]\<rparr>
   \<and> apply_filters small_lib (nobody\<lparr>typed := u ''(''\<rparr>)
         \<lparr>columns = [u ''Title''], rows = [\<lambda>c. Str (u ''a(b'')]\<rparr>
       = Inl ReError"
proof -
  have 1: "re_error small_lib (u ''('') = Some ReError" by (simp add: small_lib_def)
  from filter_monotone_raises [OF 1] 1 show ?thesis by simp
qed

text \<open>
  Claim C8. The filtered table has the columns of the original and its rows are rows of
  the original, unchanged and in their order. The page takes its figures (the number of
  rows, the two counts of \<open>yes\<close>, the sum) and its detail rows from the filtered table;
  the expanded table feeds the counts of the map and nothing else. Accordingly the
  figures and the detail table stay the same whatever the country database answers,
  which only the expansion consults.
\<close>

theorem filter_subset_kpis:
  "(apply_filters L ui df = Inr df_f \<longrightarrow>
      subseq (rows df_f) (rows df) \<and> columns df_f = columns df)
   \<and> (app L ui df = Inr p \<longrightarrow>
      (\<exists>df_f ex. apply_filters L ui df = Inr df_f
         \<and> make_exploded_for_geo L df_f = Inr ex
         \<and> k1 p = length (rows df_f)
         \<and> k2 p = count_yes L (u ''Transition Request'') df_f
         \<and> k3 p = count_yes L (u ''Approved by Host Party'') df_f
         \<and> k4 p = reductions_sum L df_f
         \<and> rows (details p) = rows df_f
         \<and> fig_map p = geo_counts ex)
      \<and> (\<exists>p'. app (L\<lparr>countries_get_alpha_2 := g2, countries_get_alpha_3 := g3,
                        countries_lookup := lk\<rparr>) ui df = Inr p'
         \<and> k1 p' = k1 p \<and> k2 p' = k2 p \<and> k3 p' = k3 p \<and> k4 p' = k4 p
         \<and> details p' = details p))"
proof (intro conjI impI)
  assume a: "apply_filters L ui df = Inr df_f"
  from apply_filters_rows [OF a] show "subseq (rows df_f) (rows df)" by simp
  from apply_filters_rows [OF a] show "columns df_f = columns df" by simp
next
  assume "app L ui df = Inr p"
  then show "\<exists>df_f ex. apply_filters L ui df = Inr df_f
         \<and> make_exploded_for_geo L df_f = Inr ex
         \<and> k1 p = length (rows df_f)
         \<and> k2 p = count_yes L (u ''Transition Request'') df_f
         \<and> k3 p = count_yes L (u ''Approved by Host Party'') df_f
         \<and> k4 p = reductions_sum L df_f
         \<and> rows (details p) = rows df_f
         \<and> fig_map p = geo_counts ex"
    by (auto simp: app_def total_selected_def requested_transition_def approved_yes_def
          split: sum.splits)
next
  assume "app L ui df = Inr p"
  then show "\<exists>p'. app (L\<lparr>countries_get_alpha_2 := g2, countries_get_alpha_3 := g3,
                        countries_lookup := lk\<rparr>) ui df = Inr p'
         \<and> k1 p' = k1 p \<and> k2 p' = k2 p \<and> k3 p' = k3 p \<and> k4 p' = k4 p
         \<and> details p' = details p"
    by (rule app_countries)
qed

theorem filter_subset_kpis_witness:
  "apply_filters small_lib nobody example_table = Inr example_table
   \<and> subseq (rows example_table) (rows example_table)
   \<and> (\<exists>p ex p'. app small_lib nobody example_table = Inr p
        \<and> make_exploded_for_geo small_lib example_table = Inr ex
        \<and> k1 p = length (rows example_table)
        \<and> k4 p = reductions_sum small_lib example_table
        \<and> rows (details p) = rows example_table
        \<and> fig_map p = geo_counts ex
        \<and> app (small_lib\<lparr>countries_get_alpha_2 := (\<lambda>s. None),
                          countries_get_alpha_3 := (\<lambda>s. None),
                          countries_lookup := (\<lambda>s. Inl LookupError)\<rparr>)
              nobody example_table = Inr p'
        \<and> k1 p' = k1 p \<and> k2 p' = k2 p \<and> k3 p' = k3 p \<and> k4 p' = k4 p
        \<and> details p' = details p)"
proof -
  have f: "apply_filters small_lib nobody example_table = Inr example_table"
    by (rule apply_filters_no_constraint [OF example_draw_nobody no_constraint_example])
  from app_returns [OF f example_columns(1)]
  obtain p where p: "app small_lib nobody example_table = Inr p" by auto
  from filter_subset_kpis [where L = small_lib and ui = nobody and df = example_table
      and df_f = example_table and p = p
      and ?g2.0 = "\<lambda>s. None" and ?g3.0 = "\<lambda>s. None" and lk = "\<lambda>s. Inl LookupError"] f p
  show ?thesis by auto
qed

text \<open>
  Claim C9. End to end on the table of two rows, host countries \<open>ID\<close> and \<open>CL; EG\<close>,
  transition requests \<open>Yes\<close> and \<open>No\<close>, reductions \<open>12.5\<close> and \<open>bad\<close>, with no filter
  active: two rows are selected, one requested the transition, the reductions sum to
  12.5, and the map counts one activity each for \<open>CHL\<close>, \<open>EGY\<close> and \<open>IDN\<close>. The fields the
  example calls Host Party and Reductions are the columns the program reads as
  \<open>Host country\<close> and \<open>Reductions (ktCO2e/yr)\<close>. No filter is active when the values
  the widgets return to the user make no constraint. The library is asked to know the
  three countries by their two-letter codes, to read \<open>12.5\<close> as that number and to read
  no number from \<open>bad\<close>.
\<close>

theorem end_to_end:
  assumes "countries_get_alpha_2 L (u ''ID'') = Some c0" and "alpha_3 c0 = u ''IDN''"
    and "countries_get_alpha_2 L (u ''CL'') = Some c1" and "alpha_3 c1 = u ''CHL''"
    and "countries_get_alpha_2 L (u ''EG'') = Some c2" and "alpha_3 c2 = u ''EGY''"
    and "to_numeric_str L (u ''12.5'') = Some (25 / 2)"
    and "to_numeric_str L (u ''bad'') = None"
    and "draw_filters ui example_table = Inr fs"
    and "no_constraint fs"
  shows "\<exists>p. app L ui example_table = Inr p
      \<and> k1 p = 2 \<and> k2 p = 1 \<and> k4 p = 25 / 2
      \<and> fig_map p = [(u ''CHL'', 1), (u ''EGY'', 1), (u ''IDN'', 1)]"
proof -
  have f: "apply_filters L ui example_table = Inr example_table"
    by (rule apply_filters_no_constraint [OF assms(9,10)])
  obtain ex where ex: "make_exploded_for_geo L example_table = Inr ex"
    "map (\<lambda>r. r (u ''iso3'')) (rows ex) = [Str (u ''IDN''), Str (u ''CHL''), Str (u ''EGY'')]"
    using example_expansion [OF assms(1-6)] by auto
  have n: "total_selected example_table = 2"
    by (simp add: total_selected_def example_table_def)
  show ?thesis
    by (simp add: app_def f ex(1) n example_k2 example_k4 [OF assms(7,8)]
          geo_counts_example [OF ex(2)])
qed

theorem end_to_end_witness:
  "draw_filters nobody example_table
     = Inr (nothing_offered\<lparr>w_host := Some [], w_transition := Some []\<rparr>)
   \<and> no_constraint (nothing_offered\<lparr>w_host := Some [], w_transition := Some []\<rparr>)
   \<and> (\<exists>p. app small_lib nobody example_table = Inr p
      \<and> k1 p = 2 \<and> k2 p = 1 \<and> k4 p = 25 / 2
      \<and> fig_map p = [(u ''CHL'', 1), (u ''EGY'', 1), (u ''IDN'', 1)])"
proof -
  have "\<exists>p. app small_lib nobody example_table = Inr p
      \<and> k1 p = 2 \<and> k2 p = 1 \<and> k4 p = 25 / 2
      \<and> fig_map p = [(u ''CHL'', 1), (u ''EGY'', 1), (u ''IDN'', 1)]"
    by (rule end_to_end [OF small_lib_codes(1) _ small_lib_codes(2) _ small_lib_codes(3) _
          small_lib_numbers example_draw_nobody no_constraint_example]) simp_all
  with example_draw_nobody no_constraint_example show ?thesis by simp
qed

text \<open>
  Claim C10. A selection is compared with the whole cell. A host-party selection exists
  where the sidebar has been drawn and its widget has returned it. With host parties
  selected and nothing else, the rows kept are exactly the rows whose host-country cell is
  one of the selected values. Whatever else is selected, a row whose cell is \<open>CL; EG\<close> is
  not kept by a selection of single countries (texts without a semicolon): the tokens of
  the cell play no part in filtering. The values the widget offers and returns are whole
  cells as well (\<open>multiselect_cells\<close>).
\<close>

theorem host_filter_whole_cell:
  assumes "draw_filters ui df = Inr fs" and "w_host fs = Some sel" and "sel \<noteq> []"
  shows "(host_only fs \<longrightarrow>
            apply_filters L ui df
              = Inr (df\<lparr>rows := filter (\<lambda>r. r (u ''Host country'') \<in> set sel) (rows df)\<rparr>))
       \<and> (list_all single_country sel \<and> apply_filters L ui df = Inr out \<and> r \<in> set (rows out)
          \<longrightarrow> r (u ''Host country'') \<in> set sel
              \<and> r (u ''Host country'') \<noteq> Str (u ''CL; EG''))"
proof
  show "host_only fs \<longrightarrow>
            apply_filters L ui df
              = Inr (df\<lparr>rows := filter (\<lambda>r. r (u ''Host country'') \<in> set sel) (rows df)\<rparr>)"
    using apply_filters_host_only [OF assms] by simp
next
  show "list_all single_country sel \<and> apply_filters L ui df = Inr out \<and> r \<in> set (rows out)
          \<longrightarrow> r (u ''Host country'') \<in> set sel
              \<and> r (u ''Host country'') \<noteq> Str (u ''CL; EG'')"
  proof (intro impI, elim conjE)
    assume s: "list_all single_country sel"
      and a: "apply_filters L ui df = Inr out" and r: "r \<in> set (rows out)"
    from draw_host [OF assms(1)] assms(2)
    have "multiselect ui df (u ''Host country'') (u ''Host Party'') = Inr (Some sel)"
      by simp
    from multiselect_cells [OF this] have c: "u ''Host country'' \<in> set (columns df)"
      by simp
    from a have "apply_spec L df fs = Inr out"
      by (simp add: apply_filters_drawn [OF assms(1)])
    from apply_spec_passes [OF this r]
    have "passes (columns df) (u ''Host country'', w_host fs) r"
      by (simp add: selections_def)
    with assms(2,3) c have m: "r (u ''Host country'') \<in> set sel"
      by (simp add: passes_def)
    with s have "single_country (r (u ''Host country''))"
      by (simp add: list_all_iff)
    with not_single_CL_EG m
    show "r (u ''Host country'') \<in> set sel \<and> r (u ''Host country'') \<noteq> Str (u ''CL; EG'')"
      by auto
  qed
qed

theorem host_filter_whole_cell_witness:
  "draw_filters picks_ID example_table
     = Inr (nothing_offered\<lparr>w_host := Some [Str (u ''ID'')], w_transition := Some []\<rparr>)
   \<and> host_only (nothing_offered\<lparr>w_host := Some [Str (u ''ID'')], w_transition := Some []\<rparr>)
   \<and> list_all single_country [Str (u ''ID'')]
   \<and> apply_filters small_lib picks_ID example_table
     = Inr (example_table\<lparr>rows := [rows example_table ! 0]\<rparr>)
   \<and> (rows example_table ! 0) (u ''Host country'') \<noteq> Str (u ''CL; EG'')"
proof -
  let ?fs = "nothing_offered\<lparr>w_host := Some [Str (u ''ID'')], w_transition := Some []\<rparr>"
  have h: "w_host ?fs = Some [Str (u ''ID'')]" by simp
  have n: "[Str (u ''ID'')] \<noteq> []" by simp
  have 2: "filter (\<lambda>r. r (u ''Host country'') \<in> set [Str (u ''ID'')]) (rows example_table)
      = [rows example_table ! 0]"
    by (simp add: example_table_def u_def)
  have 3: "list_all single_country [Str (u ''ID'')]"
    by (simp add: single_country_def u_def)
  have m: "rows example_table ! 0
      \<in> set (rows (example_table\<lparr>rows := [rows example_table ! 0]\<rparr>))"
    by simp
  note w = host_filter_whole_cell [OF example_draw_ID h n, where L = small_lib
      and out = "example_table\<lparr>rows := [rows example_table ! 0]\<rparr>"
      and r = "rows example_table ! 0"]
  from w [THEN conjunct1, THEN mp, OF host_only_example]
  have b: "apply_filters small_lib picks_ID example_table
     = Inr (example_table\<lparr>rows := [rows example_table ! 0]\<rparr>)"
    unfolding 2 .
  from w [THEN conjunct2, THEN mp, OF conjI [OF 3 conjI [OF b m]]]
  have c: "(rows example_table ! 0) (u ''Host country'') \<noteq> Str (u ''CL; EG'')"
    by (rule conjunct2)
  show ?thesis
    by (intro conjI) (rule example_draw_ID host_only_example 3 b c)+
qed

end
